theory Spec2Isabelle
  imports Main
begin

section \<open>The user and authentication views of \<^verbatim>\<open>src/api/v1/user.py\<close>\<close>

text \<open>
  The module defines eight flask-restful resources.  Each view is embedded as a function
  from the request and the stored state to an outcome and the state it leaves.  What a
  view reads from its surroundings (the JSON body, the user agent, the bearer token, the
  clock, the random identifiers the server draws) is a field of the request; what the
  module imports from files that are not part of \<^verbatim>\<open>user.py\<close> (the UUID checker, the
  password hash and its verifier, the login-history query, the token library's
  configuration) is a field of \<open>deps\<close>, so every theorem holds for each of their
  implementations.  JSON bodies are objects with string members, in the order sent.
\<close>

subsection \<open>Data\<close>

record role =
  role_id :: string
  role_name :: string

record user =
  uid :: string
  login :: string
  email :: string
  password :: string
  first_name :: string
  last_name :: string
  roles :: "role list"

record authentication =
  auth_user_id :: string
  auth_user_agent :: string
  auth_at :: nat

datatype token_type = Access | Refresh

text \<open>
  A token of flask-jwt-extended, decoded: the claims the library writes (\<open>sub\<close>,
  \<open>type\<close>, \<open>jti\<close>, \<open>fresh\<close>, \<open>iat\<close>, \<open>exp\<close>) and the secret it was signed with.
\<close>

record token =
  sub :: string
  token_type :: token_type
  jti :: string
  fresh :: bool
  iat :: nat
  exp :: nat
  signed_with :: string

text \<open>A key of the Redis blocklist: when it was set and the \<open>ex\<close> it was set with, in seconds.\<close>

record blocklist_entry =
  set_at :: nat
  ttl :: nat

record state =
  users :: "user list"
  role_table :: "role list"
  authentications :: "authentication list"
  blocklist :: "string \<rightharpoonup> blocklist_entry"

datatype exn =
  NameError string
  | KeyError string
  | TypeError string
  | RuntimeError string
  | IntegrityError
  | DecodeError
  | LibraryError string

datatype rejection = Malformed | Expired | WrongScope | Revoked

datatype payload =
  Fields "(string \<times> string) list"
  | Tokens token token
  | Updated user
  | History "authentication list"
  | RoleList "role list"

datatype outcome =
  Response nat payload
  | Rejected rejection
  | Raised exn

record request =
  json :: "(string \<times> string) list option"
  user_agent :: string
  bearer :: "token option"
  now :: nat
  uuid_a :: string
  uuid_b :: string

record deps =
  is_uuid :: "string \<Rightarrow> bool"
  get_hash :: "string \<Rightarrow> string"
  check_password :: "string \<Rightarrow> string \<Rightarrow> bool"
  get_login_history :: "string \<Rightarrow> authentication list \<Rightarrow> authentication list"
  secret :: string
  access_lifetime :: nat
  refresh_lifetime :: nat
  jwt_fault :: "exn option"

subsection \<open>The module's namespace\<close>

text \<open>
  The names bound at module level: the imports of lines 1 to 20, the two assignments of
  lines 23 and 24, and the eight classes.  A name a view uses that is neither here nor a
  Python builtin raises \<open>NameError\<close> when the line that uses it runs.
\<close>

definition module_globals :: "string list" where
  "module_globals =
    [''timedelta'', ''Resource'', ''request'', ''hash_password'',
     ''create_access_token'', ''create_refresh_token'', ''jwt_required'',
     ''get_jwt_identity'', ''swag_from'', ''IntegrityError'', ''db'',
     ''jwt_redis_blocklist'', ''User'', ''Authentication'', ''Role'', ''SQLAlchemy'',
     ''user_datastore'', ''get_hash'', ''check_password'', ''UserSchema'', ''is_uuid'',
     ''ACCESS_EXPIRES'', ''user_schema'', ''SignUp'', ''Login'', ''RefreshTokens'',
     ''Logout'', ''ChangeCreds'', ''LoginHistory'', ''UserRoles'', ''ChangeUserRoles'']"

definition resolve :: "string \<Rightarrow> exn + unit" where
  "resolve name = (if name \<in> set module_globals then Inr () else Inl (NameError name))"

text \<open>\<open>ACCESS_EXPIRES = timedelta(hours=1)\<close>, in seconds.\<close>

definition ACCESS_EXPIRES :: nat where
  "ACCESS_EXPIRES = 3600"

subsection \<open>Request bodies\<close>

text \<open>\<open>data[key] = v\<close> on a dict: the key keeps its place, a new key goes last.\<close>

fun dict_set :: "string \<Rightarrow> string \<Rightarrow> (string \<times> string) list \<Rightarrow> (string \<times> string) list" where
  "dict_set k v [] = [(k, v)]"
| "dict_set k v ((k', v') # kvs) =
     (if k' = k then (k, v) # kvs else (k', v') # dict_set k v kvs)"

text \<open>\<open>data[key]\<close>: the value, or \<open>KeyError\<close>.\<close>

definition dict_get :: "(string \<times> string) list \<Rightarrow> string \<Rightarrow> exn + string" where
  "dict_get kvs k = (case map_of kvs k of None \<Rightarrow> Inl (KeyError k) | Some v \<Rightarrow> Inr v)"

subsection \<open>The token library\<close>

text \<open>
  \<open>create_access_token(identity, fresh=False)\<close> and \<open>create_refresh_token(identity)\<close> of
  flask-jwt-extended.  The keyword \<open>fresh\<close> defaults to \<open>False\<close>; a call that omits it
  passes \<open>fresh_default\<close>.  The \<open>jti\<close> is a UUID the library draws, the lifetimes and the
  secret are the application's configuration, and \<open>jwt_fault\<close> is the exception the
  encoder raises, if it raises one.
\<close>

definition fresh_default :: bool where
  "fresh_default = False"

definition create_access_token :: "deps \<Rightarrow> request \<Rightarrow> string \<Rightarrow> bool \<Rightarrow> exn + token" where
  "create_access_token d req identity fr =
     (case jwt_fault d of
        Some e \<Rightarrow> Inl e
      | None \<Rightarrow> Inr \<lparr>sub = identity, token_type = Access, jti = uuid_a req, fresh = fr,
                     iat = now req, exp = now req + access_lifetime d,
                     signed_with = secret d\<rparr>)"

definition create_refresh_token :: "deps \<Rightarrow> request \<Rightarrow> string \<Rightarrow> exn + token" where
  "create_refresh_token d req identity =
     (case jwt_fault d of
        Some e \<Rightarrow> Inl e
      | None \<Rightarrow> Inr \<lparr>sub = identity, token_type = Refresh, jti = uuid_b req, fresh = False,
                     iat = now req, exp = now req + refresh_lifetime d,
                     signed_with = secret d\<rparr>)"

subsection \<open>Login\<close>

text \<open>
  Modelled from the spec: \<open>user_datastore.find_user(login=...)\<close> (the datastore of
  \<^verbatim>\<open>src/utils/user_datastore.py\<close> is not among the sources).  Section 4.1: the
  matching user, or none; logins are unique (section 3), the first row is taken.
\<close>

definition find_user :: "string \<Rightarrow> state \<Rightarrow> user option" where
  "find_user l st = find (\<lambda>u. login u = l) (users st)"

definition invalid_credentials :: outcome where
  "invalid_credentials = Response 401 (Fields [(''error'', ''Invalid credentials'')])"

definition credentials_required :: outcome where
  "credentials_required = Response 400 (Fields [(''error'', ''Credentials required'')])"

text \<open>
  \<open>Login.post\<close>, lines 128 to 142.  \<open>not data\<close> holds for a missing body and for the
  empty object.  \<open>user and check_password(...)\<close> does not read \<open>data['password']\<close> when
  no user was found.
\<close>

definition Login_post :: "deps \<Rightarrow> request \<Rightarrow> state \<Rightarrow> outcome \<times> state" where
  "Login_post d req st =
     (case json req of
        None \<Rightarrow> (credentials_required, st)
      | Some data \<Rightarrow>
          if data = [] then (credentials_required, st)
          else
            (case dict_get data ''login'' of
               Inl e \<Rightarrow> (Raised e, st)
             | Inr l \<Rightarrow>
                 (case find_user l st of
                    None \<Rightarrow> (invalid_credentials, st)
                  | Some u \<Rightarrow>
                      (case dict_get data ''password'' of
                         Inl e \<Rightarrow> (Raised e, st)
                       | Inr pw \<Rightarrow>
                           if check_password d pw (password u) then
                             (case create_access_token d req (uid u) fresh_default of
                                Inl e \<Rightarrow> (Raised e, st)
                              | Inr a \<Rightarrow>
                                  (case create_refresh_token d req (uid u) of
                                     Inl e \<Rightarrow> (Raised e, st)
                                   | Inr r \<Rightarrow>
                                       (Response 200 (Tokens a r),
                                        st\<lparr>authentications := authentications st @
                                            [\<lparr>auth_user_id = uid u,
                                              auth_user_agent = user_agent req,
                                              auth_at = now req\<rparr>]\<rparr>)))
                           else (invalid_credentials, st)))))"

subsection \<open>The validator\<close>

text \<open>
  Modelled from the spec: the token validator behind \<open>@jwt_required\<close> (the library's
  decorator and the blocklist callback the application registers are not in
  \<^verbatim>\<open>user.py\<close>).  Section 4.3: signature, then expiry, then the type against
  the required scope, then the blocklist; a request without a token fails the first step.
  A blocklist key is live from the second it was set until its \<open>ex\<close> has passed.
\<close>

definition is_revoked :: "state \<Rightarrow> nat \<Rightarrow> string \<Rightarrow> bool" where
  "is_revoked st t j =
     (case blocklist st j of None \<Rightarrow> False | Some e \<Rightarrow> t < set_at e + ttl e)"

definition validate :: "deps \<Rightarrow> state \<Rightarrow> nat \<Rightarrow> token \<Rightarrow> token_type \<Rightarrow> rejection + string" where
  "validate d st t tok required =
     (if signed_with tok \<noteq> secret d then Inl Malformed
      else if exp tok \<le> t then Inl Expired
      else if token_type tok \<noteq> required then Inl WrongScope
      else if is_revoked st t (jti tok) then Inl Revoked
      else Inr (sub tok))"

definition jwt_required :: "deps \<Rightarrow> token_type \<Rightarrow> request \<Rightarrow> state \<Rightarrow> rejection + token" where
  "jwt_required d required req st =
     (case bearer req of
        None \<Rightarrow> Inl Malformed
      | Some tok \<Rightarrow>
          (case validate d st (now req) tok required of
             Inl r \<Rightarrow> Inl r
           | Inr _ \<Rightarrow> Inr tok))"

subsection \<open>The tables\<close>

text \<open>
  Modelled from the spec: the \<open>User\<close> and \<open>Role\<close> models (\<^verbatim>\<open>src/models\<close> is not among
  the sources).  Section 3: a user has an id, a login, an email, a password hash and
  roles; the views' documentation adds the first and the last name.  Section 6: the store
  enforces uniqueness of login and email, and the id is the primary key.  A user is built
  from keyword arguments as SQLAlchemy's constructor does it: a keyword that is not a
  column is a \<open>TypeError\<close> (with string members that includes \<open>roles\<close>).  The login and
  the email are required, as the documentation of \<open>SignUp.post\<close> says.
\<close>

definition set_column :: "string \<Rightarrow> string \<Rightarrow> user \<Rightarrow> user option" where
  "set_column k v u =
     (if k = ''id'' then Some (u\<lparr>uid := v\<rparr>)
      else if k = ''login'' then Some (u\<lparr>login := v\<rparr>)
      else if k = ''email'' then Some (u\<lparr>email := v\<rparr>)
      else if k = ''password'' then Some (u\<lparr>password := v\<rparr>)
      else if k = ''first_name'' then Some (u\<lparr>first_name := v\<rparr>)
      else if k = ''last_name'' then Some (u\<lparr>last_name := v\<rparr>)
      else None)"

fun user_of_kwargs :: "(string \<times> string) list \<Rightarrow> user \<Rightarrow> exn + user" where
  "user_of_kwargs [] u = Inr u"
| "user_of_kwargs ((k, v) # kvs) u =
     (case set_column k v u of
        None \<Rightarrow> Inl (TypeError k)
      | Some u' \<Rightarrow> user_of_kwargs kvs u')"

definition unique_violation :: "user \<Rightarrow> user list \<Rightarrow> bool" where
  "unique_violation u us =
     list_ex (\<lambda>v. uid v = uid u \<or> login v = login u \<or> email v = email u) us"

text \<open>
  Modelled from the spec: \<open>user_datastore.create_user(**data)\<close> followed by
  \<open>db.session.commit()\<close> (the datastore and the models are not among the sources).
  Sections 3 and 6: login and email are unique in the store and a creation that violates
  this fails; the row is added, or the commit raises \<open>IntegrityError\<close> and nothing is
  stored.  The id is the UUID drawn for the new row.
\<close>

definition create_user :: "request \<Rightarrow> (string \<times> string) list \<Rightarrow> state \<Rightarrow> exn + state" where
  "create_user req kwargs st =
     (case user_of_kwargs kwargs
             \<lparr>uid = uuid_a req, login = [], email = [], password = [],
              first_name = [], last_name = [], roles = []\<rparr> of
        Inl e \<Rightarrow> Inl e
      | Inr u \<Rightarrow>
          if map_of kwargs ''login'' = None \<or> map_of kwargs ''email'' = None
             \<or> unique_violation u (users st)
          then Inl IntegrityError
          else Inr (st\<lparr>users := users st @ [u]\<rparr>))"

text \<open>
  Modelled from the spec: \<open>User.get_by_id\<close> and \<open>Role.find_by_id\<close> (methods of the
  models, which are not among the sources).  Section 7: an id may name no user or role;
  the lookup gives the row with that primary key, or \<open>None\<close>.
\<close>

definition get_by_id :: "string \<Rightarrow> state \<Rightarrow> user option" where
  "get_by_id i st = find (\<lambda>u. uid u = i) (users st)"

definition find_by_id :: "string \<Rightarrow> state \<Rightarrow> role option" where
  "find_by_id i st = find (\<lambda>r. role_id r = i) (role_table st)"

text \<open>Writing a changed row back: the row that was loaded (the first with its id) is replaced.\<close>

fun replace_user :: "string \<Rightarrow> user \<Rightarrow> user list \<Rightarrow> user list" where
  "replace_user i u' [] = []"
| "replace_user i u' (v # vs) = (if uid v = i then u' # vs else v # replace_user i u' vs)"

fun other_users :: "string \<Rightarrow> user list \<Rightarrow> user list" where
  "other_users i [] = []"
| "other_users i (v # vs) = (if uid v = i then vs else v # other_users i vs)"

definition commit_user :: "user \<Rightarrow> user \<Rightarrow> state \<Rightarrow> exn + state" where
  "commit_user u u' st =
     (if unique_violation u' (other_users (uid u) (users st)) then Inl IntegrityError
      else Inr (st\<lparr>users := replace_user (uid u) u' (users st)\<rparr>))"

text \<open>
  Modelled from the spec: \<open>user_datastore.add_role_to_user\<close> and
  \<open>user_datastore.remove_role_from_user\<close> (\<^verbatim>\<open>src/utils/user_datastore.py\<close> is not among
  the sources).  Section 4.5: the roles of a user are a set without duplicates; adding a
  role that is held and removing one that is not held do not fail and change nothing.
\<close>

definition add_role_to_user :: "user \<Rightarrow> role \<Rightarrow> user" where
  "add_role_to_user u r = (if r \<in> set (roles u) then u else u\<lparr>roles := roles u @ [r]\<rparr>)"

definition remove_role_from_user :: "user \<Rightarrow> role \<Rightarrow> user" where
  "remove_role_from_user u r = (if r \<in> set (roles u) then u\<lparr>roles := removeAll r (roles u)\<rparr> else u)"

subsection \<open>Responses\<close>

definition already_exist :: outcome where
  "already_exist = Response 400 (Fields [(''error'', ''Login or email already exist'')])"

definition token_is_invalid :: outcome where
  "token_is_invalid = Response 401 (Fields [(''error'', ''Token is invalid'')])"

definition token_revoked :: outcome where
  "token_revoked = Response 200 (Fields [(''msg'', ''User's token revoked'')])"

definition invalid_uuid :: outcome where
  "invalid_uuid = Response 400 (Fields [(''error'', ''Invalid UUID format'')])"

definition empty_data :: outcome where
  "empty_data = Response 400 (Fields [(''msg'', ''Empty data'')])"

definition no_user :: outcome where
  "no_user = Response 400 (Fields [(''error'', ''No user with specified id'')])"

definition no_role :: outcome where
  "no_role = Response 400 (Fields [(''error'', ''No role with specified id'')])"

definition success :: outcome where
  "success = Response 200 (Fields [(''msg'', ''Success'')])"

subsection \<open>Signup\<close>

text \<open>
  \<open>SignUp.post\<close>, lines 78 to 88.  Only \<open>IntegrityError\<close> is caught; the \<open>KeyError\<close> of
  \<open>data["password"]\<close> and the constructor's \<open>TypeError\<close> leave the view.
\<close>

definition SignUp_post :: "deps \<Rightarrow> request \<Rightarrow> state \<Rightarrow> outcome \<times> state" where
  "SignUp_post d req st =
     (case json req of
        None \<Rightarrow> (credentials_required, st)
      | Some data \<Rightarrow>
          if data = [] then (credentials_required, st)
          else
            (case dict_get data ''password'' of
               Inl e \<Rightarrow> (Raised e, st)
             | Inr pw \<Rightarrow>
                 (let data' = dict_set ''password'' (get_hash d pw) data in
                  case create_user req data' st of
                    Inl e \<Rightarrow> (if e = IntegrityError then already_exist else Raised e, st)
                  | Inr st' \<Rightarrow>
                      (case dict_get data' ''login'' of
                         Inl e \<Rightarrow> (Raised e, st')
                       | Inr l \<Rightarrow> (Response 201 (Fields [(''user'', l)]), st')))))"

text \<open>
  A valid signup payload, by the documentation of \<open>SignUp.post\<close> (lines 38 to 58): the
  members of a JSON object are distinct, \<open>login\<close>, \<open>password\<close> and \<open>email\<close> are
  required, the first and the last name are optional.
\<close>

definition signup_fields :: "string list" where
  "signup_fields = [''login'', ''password'', ''email'', ''first_name'', ''last_name'']"

definition valid_signup :: "(string \<times> string) list \<Rightarrow> bool" where
  "valid_signup data =
     (distinct (map fst data)
      \<and> list_all (\<lambda>k. k \<in> set signup_fields) (map fst data)
      \<and> list_all (\<lambda>k. k \<in> set (map fst data)) [''login'', ''password'', ''email''])"

subsection \<open>Refresh\<close>

text \<open>
  \<open>RefreshTokens.post\<close>, lines 150 and 181 to 190.  The body of the \<open>try\<close> issues the
  two tokens and returns; lines 185 to 187 are comments.  When the body raises, Python
  evaluates the expression of the \<open>except\<close> clause, \<open>jwt.exceptions.DecodeError\<close>, to
  match the exception against it: the name \<open>jwt\<close> is looked up first.
\<close>

definition RefreshTokens_try :: "deps \<Rightarrow> request \<Rightarrow> string \<Rightarrow> exn + outcome" where
  "RefreshTokens_try d req identity =
     (case create_access_token d req identity False of
        Inl e \<Rightarrow> Inl e
      | Inr a \<Rightarrow>
          (case create_refresh_token d req identity of
             Inl e \<Rightarrow> Inl e
           | Inr r \<Rightarrow> Inr (Response 200 (Tokens a r))))"

definition RefreshTokens_post :: "deps \<Rightarrow> request \<Rightarrow> state \<Rightarrow> outcome \<times> state" where
  "RefreshTokens_post d req st =
     (case jwt_required d Refresh req st of
        Inl rej \<Rightarrow> (Rejected rej, st)
      | Inr tok \<Rightarrow>
          (case RefreshTokens_try d req (sub tok) of
             Inr out \<Rightarrow> (out, st)
           | Inl e \<Rightarrow>
               (case resolve ''jwt'' of
                  Inl ne \<Rightarrow> (Raised ne, st)
                | Inr _ \<Rightarrow> (if e = DecodeError then token_is_invalid else Raised e, st))))"

subsection \<open>Logout\<close>

text \<open>
  \<open>Logout.delete\<close>, lines 198 to 204.  Line 200 calls \<open>get_jwt\<close>, so the name is looked
  up after the decorator has accepted the token and before anything is written.  The
  module does not bind the name, so the lookup raises and line 201 is not reached.  The
  last branch is lines 201 to 204 as they are written: the \<open>jti\<close> of the verified token
  is set in the blocklist with \<open>ex=ACCESS_EXPIRES\<close>.
\<close>

definition Logout_delete :: "deps \<Rightarrow> request \<Rightarrow> state \<Rightarrow> outcome \<times> state" where
  "Logout_delete d req st =
     (case jwt_required d Access req st of
        Inl rej \<Rightarrow> (Rejected rej, st)
      | Inr tok \<Rightarrow>
          (case resolve ''get_jwt'' of
             Inl ne \<Rightarrow> (Raised ne, st)
           | Inr _ \<Rightarrow>
               (token_revoked,
                st\<lparr>blocklist :=
                     (blocklist st)(jti tok \<mapsto> \<lparr>set_at = now req, ttl = ACCESS_EXPIRES\<rparr>)\<rparr>)))"

subsection \<open>Credentials, history and roles\<close>

text \<open>
  The loop of \<open>ChangeCreds.put\<close>, lines 272 to 276: \<open>setattr\<close> for every member, the
  password hashed first (\<open>data["password"]\<close> is the member's own value).  A name that is
  not a column becomes a plain attribute of the object and is not stored; a string
  assigned to the \<open>roles\<close> relationship is a \<open>TypeError\<close>.
\<close>

fun setattrs :: "deps \<Rightarrow> (string \<times> string) list \<Rightarrow> user \<Rightarrow> exn + user" where
  "setattrs d [] u = Inr u"
| "setattrs d ((k, v) # kvs) u =
     (if k = ''roles'' then Inl (TypeError k)
      else
        (case set_column k (if k = ''password'' then get_hash d v else v) u of
           None \<Rightarrow> setattrs d kvs u
         | Some u' \<Rightarrow> setattrs d kvs u'))"

text \<open>\<open>ChangeCreds.put\<close>, lines 210 and 263 to 280.\<close>

definition ChangeCreds_put :: "deps \<Rightarrow> string \<Rightarrow> request \<Rightarrow> state \<Rightarrow> outcome \<times> state" where
  "ChangeCreds_put d user_id req st =
     (case jwt_required d Access req st of
        Inl rej \<Rightarrow> (Rejected rej, st)
      | Inr _ \<Rightarrow>
          if \<not> is_uuid d user_id then (invalid_uuid, st)
          else
            (case json req of
               None \<Rightarrow> (empty_data, st)
             | Some data \<Rightarrow>
                 if data = [] then (empty_data, st)
                 else
                   (case get_by_id user_id st of
                      None \<Rightarrow> (no_user, st)
                    | Some u \<Rightarrow>
                        (case setattrs d data u of
                           Inl e \<Rightarrow> (if e = IntegrityError then already_exist else Raised e, st)
                         | Inr u' \<Rightarrow>
                             (case commit_user u u' st of
                                Inl e \<Rightarrow>
                                  (if e = IntegrityError then already_exist else Raised e, st)
                              | Inr st' \<Rightarrow> (Response 200 (Updated u'), st'))))))"

text \<open>\<open>LoginHistory.get\<close>, lines 286 and 317 to 320: no user is looked up.\<close>

definition LoginHistory_get :: "deps \<Rightarrow> string \<Rightarrow> request \<Rightarrow> state \<Rightarrow> outcome \<times> state" where
  "LoginHistory_get d user_id req st =
     (case jwt_required d Access req st of
        Inl rej \<Rightarrow> (Rejected rej, st)
      | Inr _ \<Rightarrow>
          if \<not> is_uuid d user_id then (invalid_uuid, st)
          else (Response 200 (History (get_login_history d user_id (authentications st))), st))"

text \<open>\<open>UserRoles.get\<close>, lines 326 and 358 to 363.\<close>

definition UserRoles_get :: "deps \<Rightarrow> string \<Rightarrow> request \<Rightarrow> state \<Rightarrow> outcome \<times> state" where
  "UserRoles_get d user_id req st =
     (case jwt_required d Access req st of
        Inl rej \<Rightarrow> (Rejected rej, st)
      | Inr _ \<Rightarrow>
          if \<not> is_uuid d user_id then (invalid_uuid, st)
          else
            (case get_by_id user_id st of
               None \<Rightarrow> (no_user, st)
             | Some u \<Rightarrow> (Response 200 (RoleList (roles u)), st)))"

text \<open>
  \<open>ChangeUserRoles.post\<close> and \<open>ChangeUserRoles.delete\<close>, lines 369, 404 to 414, 416 and
  451 to 461.  The two views differ in the datastore call only.
\<close>

definition change_role ::
  "(user \<Rightarrow> role \<Rightarrow> user) \<Rightarrow> deps \<Rightarrow> string \<Rightarrow> string \<Rightarrow> request \<Rightarrow> state \<Rightarrow> outcome \<times> state" where
  "change_role f d user_id rid req st =
     (case jwt_required d Access req st of
        Inl rej \<Rightarrow> (Rejected rej, st)
      | Inr _ \<Rightarrow>
          if \<not> (is_uuid d user_id \<and> is_uuid d rid) then (invalid_uuid, st)
          else
            (case get_by_id user_id st of
               None \<Rightarrow> (no_user, st)
             | Some u \<Rightarrow>
                 (case find_by_id rid st of
                    None \<Rightarrow> (no_role, st)
                  | Some r \<Rightarrow>
                      (success, st\<lparr>users := replace_user (uid u) (f u r) (users st)\<rparr>))))"

definition ChangeUserRoles_post :: "deps \<Rightarrow> string \<Rightarrow> string \<Rightarrow> request \<Rightarrow> state \<Rightarrow> outcome \<times> state" where
  "ChangeUserRoles_post = change_role add_role_to_user"

definition ChangeUserRoles_delete :: "deps \<Rightarrow> string \<Rightarrow> string \<Rightarrow> request \<Rightarrow> state \<Rightarrow> outcome \<times> state" where
  "ChangeUserRoles_delete = change_role remove_role_from_user"

subsection \<open>Concrete inputs\<close>

text \<open>
  Stand-ins for the imported helpers, used where a theorem is applied to a concrete
  request: identifiers in the canonical 8-4-4-4-12 hexadecimal form, a hash that can be
  read back, an hour for the access token and thirty days for the refresh token.
\<close>

definition canonical_uuid :: "string \<Rightarrow> bool" where
  "canonical_uuid s =
     (length s = 36
      \<and> list_all (\<lambda>i. s ! i = CHR ''-'') [8, 13, 18, 23]
      \<and> list_all (\<lambda>i. s ! i \<in> set ''0123456789abcdef'')
          (filter (\<lambda>i. i \<notin> set [8, 13, 18, 23]) [0..<36]))"

definition by_user :: "string \<Rightarrow> authentication list \<Rightarrow> authentication list" where
  "by_user i = filter (\<lambda>a. auth_user_id a = i)"

definition deps0 :: deps where
  "deps0 =
     \<lparr>is_uuid = canonical_uuid,
      get_hash = (\<lambda>p. ''hash:'' @ p),
      check_password = (\<lambda>p h. h = ''hash:'' @ p),
      get_login_history = by_user,
      secret = ''server-secret'',
      access_lifetime = 3600,
      refresh_lifetime = 2592000,
      jwt_fault = None\<rparr>"

definition alice_id :: string where
  "alice_id = ''00000000-0000-4000-8000-00000000000a''"

definition nobody_id :: string where
  "nobody_id = ''00000000-0000-4000-8000-00000000000b''"

definition admin_id :: string where
  "admin_id = ''00000000-0000-4000-8000-0000000000f1''"

definition admin :: role where
  "admin = \<lparr>role_id = admin_id, role_name = ''admin''\<rparr>"

definition alice :: user where
  "alice =
     \<lparr>uid = alice_id, login = ''alice'', email = ''a@x.com'', password = ''hash:pw1'',
      first_name = [], last_name = [], roles = []\<rparr>"

definition state0 :: state where
  "state0 = \<lparr>users = [alice], role_table = [admin], authentications = [], blocklist = Map.empty\<rparr>"

definition login_alice :: request where
  "login_alice =
     \<lparr>json = Some [(''login'', ''alice''), (''password'', ''pw1'')],
      user_agent = ''curl/8'', bearer = None, now = 1000,
      uuid_a = ''jti-a1'', uuid_b = ''jti-r1''\<rparr>"

definition access1 :: token where
  "access1 =
     \<lparr>sub = alice_id, token_type = Access, jti = ''jti-a1'', fresh = False, iat = 1000,
      exp = 4600, signed_with = ''server-secret''\<rparr>"

definition refresh1 :: token where
  "refresh1 =
     \<lparr>sub = alice_id, token_type = Refresh, jti = ''jti-r1'', fresh = False, iat = 1000,
      exp = 2593000, signed_with = ''server-secret''\<rparr>"

definition state1 :: state where
  "state1 =
     state0\<lparr>authentications :=
       [\<lparr>auth_user_id = alice_id, auth_user_agent = ''curl/8'', auth_at = 1000\<rparr>]\<rparr>"

definition with_token :: "token \<Rightarrow> nat \<Rightarrow> request" where
  "with_token tok t =
     \<lparr>json = None, user_agent = ''curl/8'', bearer = Some tok, now = t,
      uuid_a = ''jti-a2'', uuid_b = ''jti-r2''\<rparr>"

text \<open>Alice holding the admin role, and Bob, who signs up twice.\<close>

definition alice_admin :: user where
  "alice_admin = alice\<lparr>roles := [admin]\<rparr>"

definition state2 :: state where
  "state2 = state1\<lparr>users := [alice_admin]\<rparr>"

definition signup_bob :: request where
  "signup_bob =
     \<lparr>json = Some [(''login'', ''bob''), (''password'', ''pw1''), (''email'', ''b@x.com'')],
      user_agent = ''curl/8'', bearer = None, now = 500,
      uuid_a = ''00000000-0000-4000-8000-00000000000c'', uuid_b = []\<rparr>"

definition signup_bob_again :: request where
  "signup_bob_again =
     \<lparr>json = Some [(''login'', ''bob''), (''password'', ''pw2''), (''email'', ''c@x.com'')],
      user_agent = ''curl/8'', bearer = None, now = 600,
      uuid_a = ''00000000-0000-4000-8000-00000000000d'', uuid_b = []\<rparr>"

definition bob :: user where
  "bob =
     \<lparr>uid = ''00000000-0000-4000-8000-00000000000c'', login = ''bob'', email = ''b@x.com'',
      password = ''hash:pw1'', first_name = [], last_name = [], roles = []\<rparr>"

definition carol_request :: request where
  "carol_request = (with_token access1 2000)\<lparr>json := Some [(''login'', ''carol'')]\<rparr>"

section \<open>Properties\<close>

lemma dict_get_Some: "map_of kvs k = Some v \<Longrightarrow> dict_get kvs k = Inr v"
  by (simp add: dict_get_def)

lemma map_of_Some_nonempty: "map_of kvs k = Some v \<Longrightarrow> kvs \<noteq> []"
  by auto

lemma resolve_jwt: "resolve ''jwt'' = Inl (NameError ''jwt'')"
  by (simp add: resolve_def module_globals_def)

lemma resolve_get_jwt: "resolve ''get_jwt'' = Inl (NameError ''get_jwt'')"
  by (simp add: resolve_def module_globals_def)

text \<open>Neither the refresh view nor the logout view, as written, changes the stored state.\<close>

lemma RefreshTokens_post_state: "snd (RefreshTokens_post d req st) = st"
  by (simp add: RefreshTokens_post_def resolve_jwt split: sum.splits)

lemma Logout_delete_state: "snd (Logout_delete d req st) = st"
  by (simp add: Logout_delete_def resolve_get_jwt split: sum.splits)

lemmas fixtures = deps0_def login_alice_def state0_def state1_def access1_def refresh1_def
  alice_def alice_id_def admin_def admin_id_def nobody_id_def with_token_def

lemma uuid_fixtures:
  "canonical_uuid alice_id" "canonical_uuid admin_id" "canonical_uuid nobody_id"
  "\<not> canonical_uuid ''42''"
  by code_simp+

text \<open>Rows and the blocklist under the writes of the role views.\<close>

lemma find_uid: "find (\<lambda>v. uid v = i) us = Some u \<Longrightarrow> uid u = i"
  by (induction us) (simp_all split: if_splits)

lemma replace_user_same: "find (\<lambda>v. uid v = i) us = Some u \<Longrightarrow> replace_user i u us = us"
  by (induction us) (simp_all split: if_splits)

lemma find_replace_user:
  "find (\<lambda>v. uid v = i) us = Some u \<Longrightarrow> uid u' = i \<Longrightarrow>
   find (\<lambda>v. uid v = i) (replace_user i u' us) = Some u'"
  by (induction us) (simp_all split: if_splits)

lemma replace_user_twice:
  "uid u' = i \<Longrightarrow> replace_user i u'' (replace_user i u' us) = replace_user i u'' us"
  by (induction us) simp_all

lemma validate_blocklist:
  "blocklist st' = blocklist st \<Longrightarrow> validate d st' t tok k = validate d st t tok k"
  by (simp add: validate_def is_revoked_def)

lemma jwt_required_blocklist:
  "blocklist st' = blocklist st \<Longrightarrow> jwt_required d k req st' = jwt_required d k req st"
proof (cases "bearer req")
  case None
  then show ?thesis by (simp add: jwt_required_def)
next
  case (Some tok)
  assume "blocklist st' = blocklist st"
  then have "validate d st' (now req) tok k = validate d st (now req) tok k"
    by (rule validate_blocklist)
  with Some show ?thesis by (simp add: jwt_required_def)
qed

lemma uid_add_role: "uid (add_role_to_user u r) = uid u"
  by (simp add: add_role_to_user_def)

lemma add_role_twice: "add_role_to_user (add_role_to_user u r) r = add_role_to_user u r"
  by (simp add: add_role_to_user_def)

lemma change_role_found:
  assumes "jwt_required d Access req st = Inr tok" and "is_uuid d user_id" and "is_uuid d rid"
    and "get_by_id user_id st = Some u" and "find_by_id rid st = Some r"
  shows "change_role f d user_id rid req st =
           (success, st\<lparr>users := replace_user (uid u) (f u r) (users st)\<rparr>)"
  by (simp add: change_role_def assms)

text \<open>Signup payloads and the user built from them.\<close>

lemma map_fst_dict_set:
  "map fst (dict_set k v kvs) = (if k \<in> fst ` set kvs then map fst kvs else map fst kvs @ [k])"
  by (induction kvs) force+

lemma map_of_dict_set: "map_of (dict_set k v kvs) = (map_of kvs)(k \<mapsto> v)"
  by (induction kvs) (auto simp: fun_eq_iff)

lemma valid_signup_dict_set:
  "valid_signup data \<Longrightarrow> valid_signup (dict_set ''password'' h data)"
  by (simp add: valid_signup_def map_fst_dict_set)

lemma valid_signup_members:
  assumes "valid_signup data"
  shows "\<exists>l p e. map_of data ''login'' = Some l \<and> map_of data ''password'' = Some p
           \<and> map_of data ''email'' = Some e"
proof -
  have "''login'' \<in> fst ` set data" "''password'' \<in> fst ` set data" "''email'' \<in> fst ` set data"
    using assms by (simp_all add: valid_signup_def)
  then show ?thesis
    by (metis map_of_eq_None_iff not_Some_eq)
qed

lemma user_of_kwargs_fields:
  "distinct (map fst kvs) \<Longrightarrow> list_all (\<lambda>k. k \<in> set signup_fields) (map fst kvs) \<Longrightarrow>
   \<exists>u. user_of_kwargs kvs u0 = Inr u \<and> uid u = uid u0
      \<and> login u = (case map_of kvs ''login'' of None \<Rightarrow> login u0 | Some v \<Rightarrow> v)
      \<and> email u = (case map_of kvs ''email'' of None \<Rightarrow> email u0 | Some v \<Rightarrow> v)"
proof (induction kvs arbitrary: u0)
  case Nil
  then show ?case by simp
next
  case (Cons kv kvs)
  obtain k v where kv: "kv = (k, v)"
    by (cases kv)
  have k: "k \<in> set signup_fields" and fresh_k: "map_of kvs k = None"
    and d: "distinct (map fst kvs)"
    and a: "list_all (\<lambda>k. k \<in> set signup_fields) (map fst kvs)"
    using Cons.prems by (auto simp: kv map_of_eq_None_iff)
  obtain u1 where u1: "set_column k v u0 = Some u1"
    using k by (auto simp: set_column_def signup_fields_def)
  have u1_fields: "uid u1 = uid u0"
    "login u1 = (if k = ''login'' then v else login u0)"
    "email u1 = (if k = ''email'' then v else email u0)"
    using u1 k by (auto simp: set_column_def signup_fields_def split: if_splits)
  obtain u where u: "user_of_kwargs kvs u1 = Inr u" "uid u = uid u1"
    "login u = (case map_of kvs ''login'' of None \<Rightarrow> login u1 | Some v \<Rightarrow> v)"
    "email u = (case map_of kvs ''email'' of None \<Rightarrow> email u1 | Some v \<Rightarrow> v)"
    using Cons.IH [OF d a, of u1] by blast
  have "user_of_kwargs (kv # kvs) u0 = Inr u"
    by (simp add: kv u1 u(1))
  moreover have "uid u = uid u0"
    by (simp add: u(2) u1_fields(1))
  moreover have "login u = (case map_of (kv # kvs) ''login'' of None \<Rightarrow> login u0 | Some v \<Rightarrow> v)"
    using fresh_k by (auto simp: kv u(3) u1_fields(2) split: option.splits)
  moreover have "email u = (case map_of (kv # kvs) ''email'' of None \<Rightarrow> email u0 | Some v \<Rightarrow> v)"
    using fresh_k by (auto simp: kv u(4) u1_fields(3) split: option.splits)
  ultimately show ?case by blast
qed

lemma create_user_valid:
  assumes v: "valid_signup kwargs"
    and l: "map_of kwargs ''login'' = Some l" and e: "map_of kwargs ''email'' = Some e"
  shows "\<exists>u. uid u = uuid_a req \<and> login u = l \<and> email u = e
           \<and> create_user req kwargs st =
               (if unique_violation u (users st) then Inl IntegrityError
                else Inr (st\<lparr>users := users st @ [u]\<rparr>))"
proof -
  let ?u0 = "\<lparr>uid = uuid_a req, login = [], email = [], password = [],
              first_name = [], last_name = [], roles = []\<rparr>"
  have "distinct (map fst kwargs)" "list_all (\<lambda>k. k \<in> set signup_fields) (map fst kwargs)"
    using v by (simp_all add: valid_signup_def)
  from user_of_kwargs_fields [OF this, of ?u0]
  obtain u where u: "user_of_kwargs kwargs ?u0 = Inr u" "uid u = uuid_a req"
    "login u = l" "email u = e"
    by (auto simp: l e)
  have "create_user req kwargs st =
      (if unique_violation u (users st) then Inl IntegrityError
       else Inr (st\<lparr>users := users st @ [u]\<rparr>))"
    by (simp add: create_user_def u(1) l e)
  then show ?thesis using u by blast
qed

subsection \<open>Login failures\<close>

text \<open>
  C3.  Two login requests whose bodies hold a \<open>login\<close> and a \<open>password\<close>: one names a
  login that no user has, the other an existing login with a password the verifier
  rejects.  Both get the same response, 401 with \<open>Invalid credentials\<close>, and neither
  changes the state.
\<close>

theorem Login_post_no_enumeration:
  assumes "json req1 = Some data1" and "map_of data1 ''login'' = Some l1"
    and "map_of data1 ''password'' = Some p1" and "find_user l1 st1 = None"
    and "json req2 = Some data2" and "map_of data2 ''login'' = Some l2"
    and "map_of data2 ''password'' = Some p2" and "find_user l2 st2 = Some u"
    and "\<not> check_password d p2 (password u)"
  shows "Login_post d req1 st1 = (invalid_credentials, st1)
       \<and> Login_post d req2 st2 = (invalid_credentials, st2)
       \<and> fst (Login_post d req1 st1) = fst (Login_post d req2 st2)"
proof -
  have n1: "data1 \<noteq> []" and n2: "data2 \<noteq> []"
    using assms(2,6) by auto
  have a: "Login_post d req1 st1 = (invalid_credentials, st1)"
    using assms(1-4) n1 by (simp add: Login_post_def dict_get_Some)
  have b: "Login_post d req2 st2 = (invalid_credentials, st2)"
    using assms(5-9) n2 by (simp add: Login_post_def dict_get_Some)
  show ?thesis using a b by simp
qed

theorem Login_post_no_enumeration_witness:
  "Login_post deps0 (login_alice\<lparr>json := Some [(''login'', ''bob''), (''password'', ''pw1'')]\<rparr>)
       state0 = (invalid_credentials, state0)
   \<and> Login_post deps0 (login_alice\<lparr>json := Some [(''login'', ''alice''), (''password'', ''pw2'')]\<rparr>)
       state0 = (invalid_credentials, state0)"
proof -
  have h1: "json (login_alice\<lparr>json := Some [(''login'', ''bob''), (''password'', ''pw1'')]\<rparr>)
      = Some [(''login'', ''bob''), (''password'', ''pw1'')]"
    and h2: "map_of [(''login'', ''bob''), (''password'', ''pw1'')] ''login'' = Some ''bob''"
    and h3: "map_of [(''login'', ''bob''), (''password'', ''pw1'')] ''password'' = Some ''pw1''"
    and h4: "find_user ''bob'' state0 = None"
    and h5: "json (login_alice\<lparr>json := Some [(''login'', ''alice''), (''password'', ''pw2'')]\<rparr>)
      = Some [(''login'', ''alice''), (''password'', ''pw2'')]"
    and h6: "map_of [(''login'', ''alice''), (''password'', ''pw2'')] ''login'' = Some ''alice''"
    and h7: "map_of [(''login'', ''alice''), (''password'', ''pw2'')] ''password'' = Some ''pw2''"
    and h8: "find_user ''alice'' state0 = Some alice"
    and h9: "\<not> check_password deps0 ''pw2'' (password alice)"
    by (simp_all add: find_user_def fixtures)
  show ?thesis
    using Login_post_no_enumeration [OF h1 h2 h3 h4 h5 h6 h7 h8 h9] by simp
qed

subsection \<open>Refresh and the blocklist\<close>

text \<open>
  C1.  The claim: after a successful refresh the ids of the old refresh token and of the
  old access token are in the blocklist, so the old tokens no longer validate.  The view
  writes nothing: lines 185 to 187, which name the three steps, are comments.  Alice logs
  in at second 1000 and refreshes at second 2000.  The refresh returns a new pair, the
  state is the one before, neither old id is in the blocklist, and a second later the old
  refresh token and the old access token both still validate.
\<close>

theorem RefreshTokens_post_leaves_old_tokens_valid:
  "RefreshTokens_post deps0 (with_token refresh1 2000) state1 =
     (Response 200
        (Tokens
           \<lparr>sub = alice_id, token_type = Access, jti = ''jti-a2'', fresh = False,
            iat = 2000, exp = 5600, signed_with = ''server-secret''\<rparr>
           \<lparr>sub = alice_id, token_type = Refresh, jti = ''jti-r2'', fresh = False,
            iat = 2000, exp = 2594000, signed_with = ''server-secret''\<rparr>),
      state1)
   \<and> blocklist state1 (jti refresh1) = None
   \<and> blocklist state1 (jti access1) = None
   \<and> validate deps0 state1 2001 refresh1 Refresh = Inr alice_id
   \<and> validate deps0 state1 2001 access1 Access = Inr alice_id"
  by (simp add: RefreshTokens_post_def RefreshTokens_try_def jwt_required_def
      create_access_token_def create_refresh_token_def validate_def is_revoked_def fixtures)

subsection \<open>Logout\<close>

text \<open>
  C2.  The claim: an authenticated logout puts the \<open>jti\<close> of the presented access token
  into the blocklist, and the token then validates as \<open>Revoked\<close>.  Line 200 calls
  \<open>get_jwt\<close>, which the module does not import (lines 5 and 6 import four other names of
  the library).  Alice's logout at second 2000 passes the decorator and raises
  \<open>NameError\<close>; the blocklist is as before and the token still validates.
\<close>

theorem Logout_delete_raises_NameError:
  "Logout_delete deps0 (with_token access1 2000) state1 = (Raised (NameError ''get_jwt''), state1)
   \<and> blocklist state1 (jti access1) = None
   \<and> validate deps0 state1 2001 access1 Access = Inr alice_id"
  by (simp add: Logout_delete_def jwt_required_def resolve_get_jwt validate_def is_revoked_def
      fixtures)


subsection \<open>Freshness\<close>

text \<open>
  C6.  The claim: an access token issued by login differs in its \<open>fresh\<close> flag from one
  issued by refresh.  Line 183 passes \<open>fresh=False\<close>; line 135 passes nothing, and the
  library's default is \<open>False\<close> as well.  Alice's login yields an access token with
  \<open>fresh = False\<close>, and so does the refresh that follows.
\<close>

theorem login_and_refresh_tokens_equally_fresh:
  "Login_post deps0 login_alice state0 = (Response 200 (Tokens access1 refresh1), state1)
   \<and> RefreshTokens_post deps0 (with_token refresh1 2000) state1 =
       (Response 200
          (Tokens
             \<lparr>sub = alice_id, token_type = Access, jti = ''jti-a2'', fresh = False,
              iat = 2000, exp = 5600, signed_with = ''server-secret''\<rparr>
             \<lparr>sub = alice_id, token_type = Refresh, jti = ''jti-r2'', fresh = False,
              iat = 2000, exp = 2594000, signed_with = ''server-secret''\<rparr>),
        state1)
   \<and> fresh access1 = False"
  by (simp add: Login_post_def dict_get_def find_user_def fresh_default_def
      RefreshTokens_post_def RefreshTokens_try_def jwt_required_def validate_def is_revoked_def
      create_access_token_def create_refresh_token_def fixtures)

subsection \<open>The except clause of refresh\<close>

text \<open>
  C10.  The refresh view never answers 401 \<open>Token is invalid\<close>.  When the body of its
  \<open>try\<close> raises, whatever the exception, the \<open>except\<close> clause looks up \<open>jwt\<close>, which
  the module does not import, and the view raises \<open>NameError\<close>.
\<close>

theorem RefreshTokens_post_except_unreachable:
  "fst (RefreshTokens_post d req st) \<noteq> token_is_invalid
   \<and> (jwt_required d Refresh req st = Inr tok \<and> RefreshTokens_try d req (sub tok) = Inl e
        \<longrightarrow> RefreshTokens_post d req st = (Raised (NameError ''jwt''), st))"
  by (auto simp: RefreshTokens_post_def RefreshTokens_try_def resolve_jwt token_is_invalid_def
      split: sum.splits)

theorem RefreshTokens_post_except_unreachable_witness:
  "jwt_required (deps0\<lparr>jwt_fault := Some DecodeError\<rparr>) Refresh (with_token refresh1 2000) state1
     = Inr refresh1
   \<and> RefreshTokens_try (deps0\<lparr>jwt_fault := Some DecodeError\<rparr>) (with_token refresh1 2000)
       (sub refresh1) = Inl DecodeError
   \<and> RefreshTokens_post (deps0\<lparr>jwt_fault := Some DecodeError\<rparr>) (with_token refresh1 2000) state1
       = (Raised (NameError ''jwt''), state1)"
proof -
  have h1: "jwt_required (deps0\<lparr>jwt_fault := Some DecodeError\<rparr>) Refresh
      (with_token refresh1 2000) state1 = Inr refresh1"
    by (simp add: jwt_required_def validate_def is_revoked_def fixtures)
  have h2: "RefreshTokens_try (deps0\<lparr>jwt_fault := Some DecodeError\<rparr>) (with_token refresh1 2000)
      (sub refresh1) = Inl DecodeError"
    by (simp add: RefreshTokens_try_def create_access_token_def deps0_def)
  show ?thesis
    using h1 h2 RefreshTokens_post_except_unreachable
      [of "deps0\<lparr>jwt_fault := Some DecodeError\<rparr>" "with_token refresh1 2000" state1
          refresh1 DecodeError]
    by simp
qed

subsection \<open>Signup\<close>

text \<open>
  C4.  A valid signup payload whose login and email no user has (and whose drawn id is
  new) creates exactly one user and is answered with 201.  A second valid payload that
  reuses the login or the email is then answered with 400 \<open>Login or email already
  exist\<close>, not with an exception, and the state after it is the state before it: no
  second row.  The uniqueness constraints are those of the spec's store (section 6).
\<close>

theorem SignUp_post_duplicate_rejected:
  assumes b1: "json req1 = Some data1" and v1: "valid_signup data1"
    and l1: "map_of data1 ''login'' = Some l" and e1: "map_of data1 ''email'' = Some e"
    and unused: "uuid_a req1 \<notin> uid ` set (users st)" "l \<notin> login ` set (users st)"
      "e \<notin> email ` set (users st)"
    and b2: "json req2 = Some data2" and v2: "valid_signup data2"
    and reuse: "map_of data2 ''login'' = Some l \<or> map_of data2 ''email'' = Some e"
  shows "\<exists>u. SignUp_post d req1 st =
               (Response 201 (Fields [(''user'', l)]), st\<lparr>users := users st @ [u]\<rparr>)
           \<and> login u = l \<and> email u = e
           \<and> SignUp_post d req2 (st\<lparr>users := users st @ [u]\<rparr>) =
               (already_exist, st\<lparr>users := users st @ [u]\<rparr>)"
proof -
  obtain p1 where p1: "map_of data1 ''password'' = Some p1"
    using valid_signup_members [OF v1] by blast
  obtain l2 p2 e2 where m2: "map_of data2 ''login'' = Some l2"
    "map_of data2 ''password'' = Some p2" "map_of data2 ''email'' = Some e2"
    using valid_signup_members [OF v2] by blast
  let ?d1 = "dict_set ''password'' (get_hash d p1) data1"
  let ?d2 = "dict_set ''password'' (get_hash d p2) data2"
  have n1: "data1 \<noteq> []" and n2: "data2 \<noteq> []"
    using l1 m2(1) by auto
  have d1: "map_of ?d1 ''login'' = Some l" "map_of ?d1 ''email'' = Some e"
    and d2: "map_of ?d2 ''login'' = Some l2" "map_of ?d2 ''email'' = Some e2"
    by (simp_all add: map_of_dict_set l1 e1 m2)
  obtain u where u: "uid u = uuid_a req1" "login u = l" "email u = e"
    "create_user req1 ?d1 st =
       (if unique_violation u (users st) then Inl IntegrityError
        else Inr (st\<lparr>users := users st @ [u]\<rparr>))"
    using create_user_valid [OF valid_signup_dict_set [OF v1] d1, of req1 st] by blast
  let ?st1 = "st\<lparr>users := users st @ [u]\<rparr>"
  have "\<not> unique_violation u (users st)"
  proof
    assume "unique_violation u (users st)"
    then obtain w where w: "w \<in> set (users st)"
      "uid w = uuid_a req1 \<or> login w = l \<or> email w = e"
      by (auto simp: unique_violation_def list_ex_iff u(1-3))
    then have "uuid_a req1 \<in> uid ` set (users st) \<or> l \<in> login ` set (users st)
        \<or> e \<in> email ` set (users st)"
      by (metis imageI)
    then show False using unused by simp
  qed
  then have c1: "create_user req1 ?d1 st = Inr ?st1"
    by (simp add: u(4))
  have s1: "SignUp_post d req1 st = (Response 201 (Fields [(''user'', l)]), ?st1)"
    by (simp add: SignUp_post_def b1 n1 dict_get_def p1 c1 d1(1))
  obtain u2 where u2: "login u2 = l2" "email u2 = e2"
    "create_user req2 ?d2 ?st1 =
       (if unique_violation u2 (users ?st1) then Inl IntegrityError
        else Inr (?st1\<lparr>users := users ?st1 @ [u2]\<rparr>))"
    using create_user_valid [OF valid_signup_dict_set [OF v2] d2, of req2 ?st1] by blast
  have "l2 = l \<or> e2 = e"
    using reuse m2 by auto
  then have "unique_violation u2 (users ?st1)"
    by (auto simp: unique_violation_def list_ex_iff u(2,3) u2(1,2))
  then have c2: "create_user req2 ?d2 ?st1 = Inl IntegrityError"
    by (simp add: u2(3))
  have s2: "SignUp_post d req2 ?st1 = (already_exist, ?st1)"
    by (simp add: SignUp_post_def b2 n2 dict_get_def m2(2) c2)
  show ?thesis
    using s1 s2 u(2,3) by blast
qed

theorem SignUp_post_duplicate_rejected_witness:
  "SignUp_post deps0 signup_bob state0 =
     (Response 201 (Fields [(''user'', ''bob'')]), state0\<lparr>users := [alice, bob]\<rparr>)
   \<and> SignUp_post deps0 signup_bob_again (state0\<lparr>users := [alice, bob]\<rparr>) =
       (already_exist, state0\<lparr>users := [alice, bob]\<rparr>)"
proof -
  let ?data1 = "[(''login'', ''bob''), (''password'', ''pw1''), (''email'', ''b@x.com'')]"
  let ?data2 = "[(''login'', ''bob''), (''password'', ''pw2''), (''email'', ''c@x.com'')]"
  have b1: "json signup_bob = Some ?data1" and b2: "json signup_bob_again = Some ?data2"
    by (simp_all add: signup_bob_def signup_bob_again_def)
  have v1: "valid_signup ?data1" and v2: "valid_signup ?data2"
    by (simp_all add: valid_signup_def signup_fields_def)
  have l1: "map_of ?data1 ''login'' = Some ''bob''"
    and e1: "map_of ?data1 ''email'' = Some ''b@x.com''"
    by simp_all
  have unused: "uuid_a signup_bob \<notin> uid ` set (users state0)"
    "''bob'' \<notin> login ` set (users state0)" "''b@x.com'' \<notin> email ` set (users state0)"
    by (simp_all add: signup_bob_def state0_def alice_def alice_id_def)
  have reuse: "map_of ?data2 ''login'' = Some ''bob'' \<or> map_of ?data2 ''email'' = Some ''b@x.com''"
    by simp
  have s1: "SignUp_post deps0 signup_bob state0 =
     (Response 201 (Fields [(''user'', ''bob'')]), state0\<lparr>users := [alice, bob]\<rparr>)"
    by (simp add: SignUp_post_def signup_bob_def dict_get_def create_user_def set_column_def
        unique_violation_def bob_def deps0_def state0_def alice_def alice_id_def)
  obtain u where u: "SignUp_post deps0 signup_bob state0 =
        (Response 201 (Fields [(''user'', ''bob'')]), state0\<lparr>users := users state0 @ [u]\<rparr>)"
    "SignUp_post deps0 signup_bob_again (state0\<lparr>users := users state0 @ [u]\<rparr>) =
        (already_exist, state0\<lparr>users := users state0 @ [u]\<rparr>)"
    using SignUp_post_duplicate_rejected [OF b1 v1 l1 e1 unused b2 v2 reuse, of deps0] by blast
  have "state0\<lparr>users := users state0 @ [u]\<rparr> = state0\<lparr>users := [alice, bob]\<rparr>"
    using u(1) s1 by simp
  then show ?thesis
    using u by simp
qed

subsection \<open>Roles\<close>

text \<open>
  C7.  For an authenticated request with well-formed ids of an existing user and an
  existing role: adding a role the user holds and removing a role the user does not hold
  both answer \<open>Success\<close> and leave the state, hence the user's roles, unchanged; adding
  the role a second time gives the outcome and the state of adding it once, and after
  adding it the roles are the old ones and this role.
\<close>

theorem role_changes_idempotent:
  assumes auth: "jwt_required d Access req st = Inr tok"
    and ids: "is_uuid d user_id" "is_uuid d rid"
    and usr: "get_by_id user_id st = Some u"
    and rol: "find_by_id rid st = Some r"
  shows "(r \<in> set (roles u) \<longrightarrow> ChangeUserRoles_post d user_id rid req st = (success, st))
       \<and> (r \<notin> set (roles u) \<longrightarrow> ChangeUserRoles_delete d user_id rid req st = (success, st))
       \<and> ChangeUserRoles_post d user_id rid req (snd (ChangeUserRoles_post d user_id rid req st))
           = ChangeUserRoles_post d user_id rid req st
       \<and> get_by_id user_id (snd (ChangeUserRoles_post d user_id rid req st))
           = Some (add_role_to_user u r)
       \<and> set (roles (add_role_to_user u r)) = insert r (set (roles u))"
proof -
  let ?u1 = "add_role_to_user u r"
  let ?st1 = "st\<lparr>users := replace_user (uid u) ?u1 (users st)\<rparr>"
  have f: "find (\<lambda>v. uid v = user_id) (users st) = Some u"
    using usr by (simp add: get_by_id_def)
  have id: "uid u = user_id"
    using f by (rule find_uid)
  have "replace_user user_id u (users st) = users st"
    using f by (rule replace_user_same)
  then have same: "st\<lparr>users := replace_user (uid u) u (users st)\<rparr> = st"
    by (simp add: id)
  have post: "ChangeUserRoles_post d user_id rid req st = (success, ?st1)"
    unfolding ChangeUserRoles_post_def by (rule change_role_found [OF auth ids usr rol])
  have del: "ChangeUserRoles_delete d user_id rid req st =
      (success, st\<lparr>users := replace_user (uid u) (remove_role_from_user u r) (users st)\<rparr>)"
    unfolding ChangeUserRoles_delete_def by (rule change_role_found [OF auth ids usr rol])
  have a: "r \<in> set (roles u) \<longrightarrow> ChangeUserRoles_post d user_id rid req st = (success, st)"
    using post same by (simp add: add_role_to_user_def)
  have b: "r \<notin> set (roles u) \<longrightarrow> ChangeUserRoles_delete d user_id rid req st = (success, st)"
    using del same by (simp add: remove_role_from_user_def)
  have "blocklist ?st1 = blocklist st"
    by simp
  then have "jwt_required d Access req ?st1 = jwt_required d Access req st"
    by (rule jwt_required_blocklist)
  then have auth1: "jwt_required d Access req ?st1 = Inr tok"
    using auth by simp
  have id1: "uid ?u1 = user_id"
    using id by (simp add: uid_add_role)
  have "find (\<lambda>v. uid v = user_id) (replace_user user_id ?u1 (users st)) = Some ?u1"
    using f id1 by (rule find_replace_user)
  then have usr1: "get_by_id user_id ?st1 = Some ?u1"
    by (simp add: get_by_id_def id)
  have rol1: "find_by_id rid ?st1 = Some r"
    using rol by (simp add: find_by_id_def)
  have twice: "replace_user user_id ?u1 (replace_user user_id ?u1 (users st))
      = replace_user user_id ?u1 (users st)"
    using id1 by (rule replace_user_twice)
  have "ChangeUserRoles_post d user_id rid req ?st1 =
      (success, ?st1\<lparr>users := replace_user (uid ?u1) (add_role_to_user ?u1 r) (users ?st1)\<rparr>)"
    unfolding ChangeUserRoles_post_def by (rule change_role_found [OF auth1 ids usr1 rol1])
  then have c: "ChangeUserRoles_post d user_id rid req ?st1 = (success, ?st1)"
    using twice by (simp add: add_role_twice id1 id)
  have e: "set (roles ?u1) = insert r (set (roles u))"
    by (auto simp: add_role_to_user_def)
  show ?thesis
    using a b c usr1 e by (simp add: post)
qed

theorem role_changes_idempotent_witness:
  "ChangeUserRoles_post deps0 alice_id admin_id (with_token access1 2000) state2 = (success, state2)
   \<and> ChangeUserRoles_delete deps0 alice_id admin_id (with_token access1 2000) state1
       = (success, state1)
   \<and> ChangeUserRoles_post deps0 alice_id admin_id (with_token access1 2000) state1
       = (success, state2)
   \<and> ChangeUserRoles_post deps0 alice_id admin_id (with_token access1 2000)
         (snd (ChangeUserRoles_post deps0 alice_id admin_id (with_token access1 2000) state1))
       = (success, state2)"
proof -
  have ids: "is_uuid deps0 alice_id" "is_uuid deps0 admin_id"
    by (simp_all add: deps0_def uuid_fixtures)
  have a1: "jwt_required deps0 Access (with_token access1 2000) state1 = Inr access1"
    and a2: "jwt_required deps0 Access (with_token access1 2000) state2 = Inr access1"
    by (simp_all add: jwt_required_def validate_def is_revoked_def state2_def fixtures)
  have u1: "get_by_id alice_id state1 = Some alice"
    and u2: "get_by_id alice_id state2 = Some alice_admin"
    and r1: "find_by_id admin_id state1 = Some admin"
    and r2: "find_by_id admin_id state2 = Some admin"
    by (simp_all add: get_by_id_def find_by_id_def state2_def alice_admin_def fixtures)
  have m1: "admin \<notin> set (roles alice)" and m2: "admin \<in> set (roles alice_admin)"
    by (simp_all add: alice_admin_def alice_def)
  have au: "add_role_to_user alice admin = alice_admin"
    by (simp add: add_role_to_user_def alice_admin_def alice_def)
  have "ChangeUserRoles_post deps0 alice_id admin_id (with_token access1 2000) state1
       = (success, state1\<lparr>users := replace_user (uid alice) (add_role_to_user alice admin)
             (users state1)\<rparr>)"
    unfolding ChangeUserRoles_post_def by (rule change_role_found [OF a1 ids u1 r1])
  also have "state1\<lparr>users := replace_user (uid alice) (add_role_to_user alice admin)
             (users state1)\<rparr> = state2"
    unfolding au by (simp add: state2_def state1_def state0_def alice_def)
  finally have p: "ChangeUserRoles_post deps0 alice_id admin_id (with_token access1 2000) state1
       = (success, state2)" .
  show ?thesis
    using role_changes_idempotent [OF a2 ids u2 r2] role_changes_idempotent [OF a1 ids u1 r1]
      m1 m2 p
    by simp
qed

subsection \<open>Login and the authentication record\<close>

text \<open>
  C8.  Every login either returns a token pair and appends exactly one authentication
  record, for the user the tokens name, or returns no pair and leaves the state as it
  was.  There is no outcome with a record and no pair, or a pair and no record; this
  includes the runs in which the token library raises.
\<close>

theorem Login_post_record_iff_tokens:
  "(\<exists>a r. Login_post d req st =
        (Response 200 (Tokens a r),
         st\<lparr>authentications := authentications st @
              [\<lparr>auth_user_id = sub a, auth_user_agent = user_agent req, auth_at = now req\<rparr>]\<rparr>)
      \<and> token_type a = Access \<and> token_type r = Refresh \<and> sub r = sub a)
   \<or> (snd (Login_post d req st) = st
       \<and> (\<forall>a r. fst (Login_post d req st) \<noteq> Response 200 (Tokens a r)))"
  by (auto simp: Login_post_def create_access_token_def create_refresh_token_def
      credentials_required_def invalid_credentials_def
      split: option.splits sum.splits)

subsection \<open>Path identifiers\<close>

text \<open>
  C9.  The claim: every view with a \<open>user_id\<close> or \<open>role_id\<close> in its path rejects a
  malformed id as invalid and a well-formed id of no user or role as not found, leaving
  the state unchanged.  Amended: for an authenticated request, every such view answers a
  malformed id (for the role views: either id) with 400 \<open>Invalid UUID format\<close>; a
  well-formed user id of no user is answered with 400 \<open>No user with specified id\<close> by
  the roles listing, by the role views (with a well-formed role id) and by the credential
  update when the body is not empty; the role views answer a well-formed role id of no
  role, for an existing user, with 400 \<open>No role with specified id\<close>.  The state is
  unchanged in each case.  What the login history does for a well-formed id of no user is
  left open.
\<close>

theorem path_identifiers_rejected:
  assumes "jwt_required d Access req st = Inr tok"
  shows "(\<not> is_uuid d user_id \<longrightarrow>
            ChangeCreds_put d user_id req st = (invalid_uuid, st)
          \<and> LoginHistory_get d user_id req st = (invalid_uuid, st)
          \<and> UserRoles_get d user_id req st = (invalid_uuid, st))
       \<and> (\<not> (is_uuid d user_id \<and> is_uuid d rid) \<longrightarrow>
            ChangeUserRoles_post d user_id rid req st = (invalid_uuid, st)
          \<and> ChangeUserRoles_delete d user_id rid req st = (invalid_uuid, st))
       \<and> (is_uuid d user_id \<and> get_by_id user_id st = None \<longrightarrow>
            UserRoles_get d user_id req st = (no_user, st)
          \<and> (json req = Some body \<and> body \<noteq> [] \<longrightarrow>
                ChangeCreds_put d user_id req st = (no_user, st))
          \<and> (is_uuid d rid \<longrightarrow>
                ChangeUserRoles_post d user_id rid req st = (no_user, st)
              \<and> ChangeUserRoles_delete d user_id rid req st = (no_user, st)))
       \<and> (is_uuid d user_id \<and> is_uuid d rid \<and> get_by_id user_id st = Some u
            \<and> find_by_id rid st = None \<longrightarrow>
            ChangeUserRoles_post d user_id rid req st = (no_role, st)
          \<and> ChangeUserRoles_delete d user_id rid req st = (no_role, st))"
  using assms
  by (simp add: ChangeCreds_put_def LoginHistory_get_def UserRoles_get_def
      ChangeUserRoles_post_def ChangeUserRoles_delete_def change_role_def)

theorem path_identifiers_rejected_witness:
  "ChangeCreds_put deps0 ''42'' carol_request state1 = (invalid_uuid, state1)
   \<and> LoginHistory_get deps0 ''42'' carol_request state1 = (invalid_uuid, state1)
   \<and> UserRoles_get deps0 ''42'' carol_request state1 = (invalid_uuid, state1)
   \<and> ChangeUserRoles_post deps0 alice_id ''42'' carol_request state1 = (invalid_uuid, state1)
   \<and> ChangeUserRoles_delete deps0 ''42'' admin_id carol_request state1 = (invalid_uuid, state1)
   \<and> UserRoles_get deps0 nobody_id carol_request state1 = (no_user, state1)
   \<and> ChangeCreds_put deps0 nobody_id carol_request state1 = (no_user, state1)
   \<and> ChangeUserRoles_post deps0 nobody_id admin_id carol_request state1 = (no_user, state1)
   \<and> ChangeUserRoles_delete deps0 nobody_id admin_id carol_request state1 = (no_user, state1)
   \<and> ChangeUserRoles_post deps0 alice_id nobody_id carol_request state1 = (no_role, state1)
   \<and> ChangeUserRoles_delete deps0 alice_id nobody_id carol_request state1 = (no_role, state1)"
proof -
  have auth: "jwt_required deps0 Access carol_request state1 = Inr access1"
    by (simp add: carol_request_def jwt_required_def validate_def is_revoked_def fixtures)
  have ids: "is_uuid deps0 alice_id" "is_uuid deps0 admin_id" "is_uuid deps0 nobody_id"
    "\<not> is_uuid deps0 ''42''"
    by (simp_all add: deps0_def uuid_fixtures)
  have body: "json carol_request = Some [(''login'', ''carol'')]"
    by (simp add: carol_request_def with_token_def)
  have rows: "get_by_id nobody_id state1 = None" "get_by_id alice_id state1 = Some alice"
    "find_by_id nobody_id state1 = None"
    by (simp_all add: get_by_id_def find_by_id_def fixtures)
  show ?thesis
    using path_identifiers_rejected [OF auth, of "''42''" admin_id "[(''login'', ''carol'')]" alice]
      path_identifiers_rejected [OF auth, of alice_id "''42''" "[(''login'', ''carol'')]" alice]
      path_identifiers_rejected [OF auth, of nobody_id admin_id "[(''login'', ''carol'')]" alice]
      path_identifiers_rejected [OF auth, of alice_id nobody_id "[(''login'', ''carol'')]" alice]
      ids body rows
    by simp
qed

text \<open>
  C9, the claim as stated fails: the credential update checks the body before it looks
  the user up (lines 266 to 271), so a well-formed id of no user with an empty body is
  answered with \<open>Empty data\<close>.
\<close>

theorem ChangeCreds_put_not_found_counterexample:
  "is_uuid deps0 nobody_id
   \<and> get_by_id nobody_id state1 = None
   \<and> jwt_required deps0 Access ((with_token access1 2000)\<lparr>json := Some []\<rparr>) state1 = Inr access1
   \<and> ChangeCreds_put deps0 nobody_id ((with_token access1 2000)\<lparr>json := Some []\<rparr>) state1
       = (empty_data, state1)
   \<and> empty_data \<noteq> no_user"
proof -
  have u: "is_uuid deps0 nobody_id"
    by (simp add: deps0_def uuid_fixtures)
  have rest: "get_by_id nobody_id state1 = None
   \<and> jwt_required deps0 Access ((with_token access1 2000)\<lparr>json := Some []\<rparr>) state1 = Inr access1"
    by (simp add: get_by_id_def jwt_required_def validate_def is_revoked_def fixtures)
  have "ChangeCreds_put deps0 nobody_id ((with_token access1 2000)\<lparr>json := Some []\<rparr>) state1
       = (empty_data, state1)"
    using u rest by (simp add: ChangeCreds_put_def)
  then show ?thesis using u rest by (simp add: empty_data_def no_user_def)
qed

text \<open>
  The login history looks no user up: every well-formed id, of a user or not, is answered
  with 200 and whatever the history query returns.
\<close>

lemma LoginHistory_get_well_formed:
  "jwt_required d Access req st = Inr tok \<Longrightarrow> is_uuid d user_id \<Longrightarrow>
   LoginHistory_get d user_id req st =
     (Response 200 (History (get_login_history d user_id (authentications st))), st)"
  by (simp add: LoginHistory_get_def)

end
